theory Spec2Isabelle
  imports Main "HOL-Library.Word"
begin

section \<open>The single-date form component (OpSingleDateFormComponent)\<close>

text \<open>
  A shallow embedding of \<^verbatim>\<open>single-date-form.component.ts\<close>. The component is a bag of
  fields kept in sync with one calendar widget; its methods become functions from
  component state to component state. Calls into collaborators (the changeset, the two
  date-modal services, the widget, the change detector, the output emitter) are recorded,
  in order, in a trace of effects.
\<close>

subsection \<open>Values\<close>

text \<open>A JavaScript string is a sequence of UTF-16 code units; \<^verbatim>\<open>.length\<close> counts them.\<close>

type_synonym jsstring = "16 word list"

text \<open>The only exception the component itself can raise: a method call on \<^verbatim>\<open>undefined\<close>.\<close>

datatype js_error = TypeError

text \<open>
  The result of the helper \<^verbatim>\<open>parseDate\<close> on a string, typed \<^verbatim>\<open>Date|''\<close>: the empty string
  or a date object. The type \<open>'d\<close> of date objects is left open.
\<close>

datatype 'd parsed = EmptyString | ParsedDate 'd

text \<open>The optional parameter \<^verbatim>\<open>minimalDate?:Date|null\<close> of \<^verbatim>\<open>initializeDatepicker\<close>.\<close>

datatype 'd minimal = Undefined | Null | MinDate 'd

text \<open>The attribute names and values the component passes to \<^verbatim>\<open>changeset.setValue\<close>.\<close>

datatype field = ScheduleManually | IgnoreNonWorkingDays | DateField

datatype fvalue = BoolValue bool | DateValue "jsstring option"

text \<open>The changeset is an object owned elsewhere; the component only holds a reference.\<close>

datatype changeset_ref = ChangesetRef nat

text \<open>
  What \<^verbatim>\<open>new DatePicker(injector, '#flatpickr-input', date, options, null)\<close> is given: the
  initial date, the number of months shown, and the minimal date captured by the
  \<^verbatim>\<open>onDayCreate\<close> closure. \<open>instId\<close> is the identity of the constructed object.
\<close>

record 'd datepicker =
  instId :: nat
  initialDate :: jsstring
  showMonths :: nat
  capturedMinimal :: "'d minimal"

datatype 'd effect =
    RelationsSetChangeset "changeset_ref option"
  | SchedulingSetChangeset "changeset_ref option"
  | PreventDefault
  | SetValue changeset_ref field fvalue
  | Emit
  | DetectChanges
  | Destroy nat
  | Construct "'d datepicker"
  | SetDates "'d parsed" "nat option" "'d parsed option"
  | TimerArmed nat

subsection \<open>Collaborators taken as parameters\<close>

text \<open>
  The helpers of \<^verbatim>\<open>date-modal.helpers\<close>, the timezone service, the device service, the
  weekdays service and the scheduling service's day predicate are not part of this file;
  they are parameters of the model. \<open>parseDate\<close> is the helper on strings,
  \<open>parseDateObj\<close> the same helper on a date object (the source casts that result
  \<^verbatim>\<open>as Date\<close>).
\<close>

record 'd env =
  validDate :: "jsstring \<Rightarrow> bool"
  parseDate :: "jsstring \<Rightarrow> 'd parsed"
  parseDateObj :: "'d \<Rightarrow> 'd"
  mappedDate :: "jsstring option \<Rightarrow> jsstring option"
  formattedISODate :: "'d \<Rightarrow> jsstring"
  isMobile :: bool
  isNonWorkingDay :: "'d \<Rightarrow> bool"
  isDayDisabled :: "'d \<Rightarrow> 'd minimal \<Rightarrow> bool"

subsection \<open>Component state\<close>

text \<open>
  The first six fields are the fields of the class (\<^verbatim>\<open>date:string|null\<close>, the private
  \<^verbatim>\<open>changeset\<close> and \<^verbatim>\<open>datePickerInstance\<close>, where \<open>None\<close> is \<^verbatim>\<open>undefined\<close>). The rest is the
  world around it: whether \<^verbatim>\<open>ngAfterViewInit\<close> has subscribed, the delay the pending
  debounce timer was armed with, the widget instances constructed and not yet destroyed,
  the next object identity, and the trace of effects.

  The fields \<^verbatim>\<open>value\<close>, \<^verbatim>\<open>htmlId\<close>, \<^verbatim>\<open>text\<close> and \<^verbatim>\<open>modalContainer\<close> take no part in the
  methods modelled here and are left out, as are \<^verbatim>\<open>reposition\<close> and the widget's
  \<^verbatim>\<open>onReady\<close> callback, which only touch the DOM.
\<close>

record 'd component =
  scheduleManually :: bool
  ignoreNonWorkingDays :: bool
  date :: "jsstring option"
  debounceDelay :: nat
  changeset :: "changeset_ref option"
  datePickerInstance :: "'d datepicker option"
  subscribed :: bool
  pendingTimer :: "nat option"
  live :: "nat list"
  nextId :: nat
  trace :: "'d effect list"

datatype 'a outcome = Returned 'a | Threw js_error 'a

fun stateOf :: "'a outcome \<Rightarrow> 'a" where
  "stateOf (Returned s) = s"
| "stateOf (Threw err s) = s"

definition perform :: "'d effect \<Rightarrow> 'd component \<Rightarrow> 'd component" where
  "perform x s = s\<lparr>trace := trace s @ [x]\<rparr>"

subsection \<open>Construction\<close>

text \<open>The field initialisers of the class. No initialiser is given for \<^verbatim>\<open>changeset\<close>.\<close>

definition fieldInitialisers :: "'d component" where
  "fieldInitialisers =
     \<lparr>scheduleManually = False, ignoreNonWorkingDays = False, date = None,
      debounceDelay = 0, changeset = None, datePickerInstance = None,
      subscribed = False, pendingTimer = None, live = [], nextId = 0, trace = []\<rparr>"

text \<open>
  \<^verbatim>\<open>dateModalRelations.setChangeset(this.changeset as WorkPackageChangeset);\<close>
  \<^verbatim>\<open>dateModalScheduling.setChangeset(this.changeset as WorkPackageChangeset);\<close>
\<close>

definition constructor :: "'d component" where
  "constructor =
     (let s0 = fieldInitialisers;
          s1 = perform (RelationsSetChangeset (changeset s0)) s0
      in perform (SchedulingSetChangeset (changeset s1)) s1)"

subsection \<open>Methods\<close>

text \<open>\<^verbatim>\<open>this.date || ''\<close>\<close>

fun orEmpty :: "jsstring option \<Rightarrow> jsstring" where
  "orEmpty None = []"
| "orEmpty (Some v) = (if v = [] then [] else v)"

text \<open>\<^verbatim>\<open>parseDate(val) || undefined\<close>: the empty string is falsy, a date object is not.\<close>

fun orUndefined :: "'d parsed \<Rightarrow> 'd parsed option" where
  "orUndefined EmptyString = None"
| "orUndefined (ParsedDate d) = Some (ParsedDate d)"

text \<open>
  \<^verbatim>\<open>const date = parseDate(this.date || '');\<close>
  \<^verbatim>\<open>setDates(date, this.datePickerInstance, enforceDate);\<close>
\<close>

definition enforceManualChangesToDatepicker ::
  "'d env \<Rightarrow> 'd parsed option \<Rightarrow> 'd component \<Rightarrow> 'd component" where
  "enforceManualChangesToDatepicker e enforceDate s =
     perform (SetDates (parseDate e (orEmpty (date s)))
                      (map_option instId (datePickerInstance s)) enforceDate) s"

definition updateDate :: "'d env \<Rightarrow> jsstring option \<Rightarrow> 'd component \<Rightarrow> 'd component" where
  "updateDate e val s =
     (case val of
        None \<Rightarrow> s
      | Some v \<Rightarrow>
          if length v \<ge> 8 \<or> length v = 0 then
            if validDate e v \<and> datePickerInstance s \<noteq> None then
              enforceManualChangesToDatepicker e (orUndefined (parseDate e v)) s
            else s
          else s)"

definition setToday :: "'d env \<Rightarrow> 'd \<Rightarrow> 'd component \<Rightarrow> 'd component" where
  "setToday e now s =
     (let today = parseDateObj e now;
          s1 = s\<lparr>date := Some (formattedISODate e today)\<rparr>
      in enforceManualChangesToDatepicker e (Some (ParsedDate today)) s1)"

text \<open>
  \<^verbatim>\<open>this.datePickerInstance?.destroy();\<close> An instance is live from its construction until
  \<^verbatim>\<open>destroy()\<close> is called on it.
\<close>

definition destroyInstance :: "'d component \<Rightarrow> 'd component" where
  "destroyInstance s =
     (case datePickerInstance s of
        None \<Rightarrow> s
      | Some w \<Rightarrow> perform (Destroy (instId w)) (s\<lparr>live := removeAll (instId w) (live s)\<rparr>))"

definition initializeDatepicker ::
  "'d env \<Rightarrow> 'd minimal \<Rightarrow> 'd component \<Rightarrow> 'd component" where
  "initializeDatepicker e minimalDate s =
     (let s1 = destroyInstance s;
          w = \<lparr>instId = nextId s1, initialDate = orEmpty (date s1),
               showMonths = (if isMobile e then 1 else 2),
               capturedMinimal = minimalDate\<rparr>
      in perform (Construct w)
           (s1\<lparr>datePickerInstance := Some w, live := live s1 @ [instId w],
               nextId := Suc (nextId s1)\<rparr>))"

text \<open>The \<^verbatim>\<open>onChange\<close> callback handed to the widget.\<close>

definition onChange :: "'d env \<Rightarrow> 'd list \<Rightarrow> 'd component \<Rightarrow> 'd component" where
  "onChange e dates s =
     perform DetectChanges
       (case dates of
          [] \<Rightarrow> s
        | d # _ \<Rightarrow>
            enforceManualChangesToDatepicker e (Some (ParsedDate d))
              (s\<lparr>date := Some (formattedISODate e d)\<rparr>))"

text \<open>
  The \<^verbatim>\<open>onDayCreate\<close> callback handed to widget \<open>w\<close>: the arguments it passes to the helper
  of the same name for the day cell of date \<open>day\<close>, evaluated in component state \<open>s\<close>.
\<close>

record 'd dayCreateCall =
  dayObj :: 'd
  argIgnoreNonWorkingDays :: bool
  argIsNonWorkingDay :: "bool option"
  argMinimalDate :: "'d minimal"
  argIsDayDisabled :: bool

definition onDayCreate :: "'d env \<Rightarrow> 'd datepicker \<Rightarrow> 'd \<Rightarrow> 'd component \<Rightarrow> 'd dayCreateCall" where
  "onDayCreate e w day s =
     \<lparr>dayObj = day,
      argIgnoreNonWorkingDays = ignoreNonWorkingDays s,
      argIsNonWorkingDay = map_option (\<lambda>_. isNonWorkingDay e day) (datePickerInstance s),
      argMinimalDate = capturedMinimal w,
      argIsDayDisabled = isDayDisabled e day (capturedMinimal w)\<rparr>"

definition changeSchedulingMode :: "'d env \<Rightarrow> 'd component \<Rightarrow> 'd component" where
  "changeSchedulingMode e s = perform DetectChanges (initializeDatepicker e Undefined s)"

text \<open>The body of the \<^verbatim>\<open>if\<close> in \<^verbatim>\<open>changeNonWorkingDays\<close> holds only a comment.\<close>

definition changeNonWorkingDays :: "'d env \<Rightarrow> 'd component \<Rightarrow> 'd component" where
  "changeNonWorkingDays e s =
     (let s1 = initializeDatepicker e Undefined s;
          s2 = (if \<not> ignoreNonWorkingDays s1 \<and> orEmpty (date s1) \<noteq> [] then s1 else s1)
      in perform DetectChanges s2)"

text \<open>
  \<^verbatim>\<open>save($event)\<close>. \<open>isSchedulable\<close> is what the scheduling service's getter returns at
  the time of the call. \<^verbatim>\<open>this.changeset.setValue\<close> on an undefined \<^verbatim>\<open>changeset\<close> raises.
\<close>

definition save :: "'d env \<Rightarrow> bool \<Rightarrow> 'd component \<Rightarrow> 'd component outcome" where
  "save e isSchedulable s =
     (let s1 = perform PreventDefault s in
      case changeset s1 of
        None \<Rightarrow> Threw TypeError s1
      | Some c \<Rightarrow>
          let s2 = perform (SetValue c ScheduleManually (BoolValue (scheduleManually s1))) s1;
              s3 = perform (SetValue c IgnoreNonWorkingDays (BoolValue (ignoreNonWorkingDays s2))) s2;
              s4 = (if isSchedulable
                    then perform (SetValue c DateField (DateValue (mappedDate e (date s3)))) s3
                    else s3)
          in Returned (perform Emit s4))"

definition cancel :: "'d component \<Rightarrow> 'd component" where
  "cancel s = perform Emit s"

text \<open>
  \<^verbatim>\<open>updateDatesFromForm(form)\<close>, with the two fields of \<^verbatim>\<open>form.payload\<close> as arguments. The
  result of \<^verbatim>\<open>parseDate\<close> is passed on as it is (the cast \<^verbatim>\<open>as Date\<close> does nothing at run time).
\<close>

definition updateDatesFromForm ::
  "'d env \<Rightarrow> jsstring \<Rightarrow> bool \<Rightarrow> 'd component \<Rightarrow> 'd component" where
  "updateDatesFromForm e payloadDate payloadIgnore s =
     (let s1 = s\<lparr>date := Some payloadDate, ignoreNonWorkingDays := payloadIgnore\<rparr>
      in enforceManualChangesToDatepicker e (Some (parseDate e payloadDate)) s1)"

subsection \<open>The two subscriptions of ngAfterViewInit\<close>

definition ngAfterViewInit :: "'d component \<Rightarrow> 'd component" where
  "ngAfterViewInit s = s\<lparr>subscribed := True\<rparr>"

text \<open>
  The relations service delivers a \<^verbatim>\<open>Date|null\<close>; the subscriber is
  \<^verbatim>\<open>(date) => { this.initializeDatepicker(date); }\<close>.
\<close>

definition onMinimalDate :: "'d env \<Rightarrow> 'd option \<Rightarrow> 'd component \<Rightarrow> 'd component" where
  "onMinimalDate e d s =
     (if subscribed s
      then initializeDatepicker e (case d of None \<Rightarrow> Null | Some x \<Rightarrow> MinDate x) s
      else s)"

text \<open>
  \<^verbatim>\<open>dateChangedManually$.next()\<close> followed by \<^verbatim>\<open>debounce(() => timer(this.debounceDelay))\<close>:
  every signal reads the delay field and arms one timer with it, replacing a pending one.
  Without a subscriber the signal is dropped.
\<close>

definition dateChangedManuallyNext :: "'d component \<Rightarrow> 'd component" where
  "dateChangedManuallyNext s =
     (if subscribed s
      then perform (TimerArmed (debounceDelay s)) (s\<lparr>pendingTimer := Some (debounceDelay s)\<rparr>)
      else s)"

text \<open>
  The subscriber of the debounced stream:
  \<^verbatim>\<open>this.debounceDelay = 800; this.updateDate(this.date);\<close>
\<close>

definition onDateChangedManually :: "'d env \<Rightarrow> 'd component \<Rightarrow> 'd component" where
  "onDateChangedManually e s =
     (let s1 = s\<lparr>debounceDelay := 800\<rparr> in updateDate e (date s1) s1)"

text \<open>The pending timer elapses and the debounced signal reaches the subscriber.\<close>

definition debounceTimerFires :: "'d env \<Rightarrow> 'd component \<Rightarrow> 'd component" where
  "debounceTimerFires e s =
     (case pendingTimer s of
        None \<Rightarrow> s
      | Some delay \<Rightarrow> onDateChangedManually e (s\<lparr>pendingTimer := None\<rparr>))"

subsection \<open>Everything that can happen to a component\<close>

text \<open>
  The public methods, the callbacks, and writes to the three public fields bound in the
  template. An exception raised in a handler ends that handler; the component lives on
  in the state it was left in.
\<close>

datatype 'd operation =
    NgAfterViewInit
  | MinimalDateEmitted "'d option"
  | DateChangedManuallyNext
  | DebounceTimerFires
  | ChangeSchedulingMode
  | ChangeNonWorkingDays
  | Save bool
  | Cancel
  | UpdateDate "jsstring option"
  | SetToday 'd
  | WidgetOnChange "'d list"
  | UpdateDatesFromForm jsstring bool
  | WriteScheduleManually bool
  | WriteIgnoreNonWorkingDays bool
  | WriteDate "jsstring option"

fun step :: "'d env \<Rightarrow> 'd operation \<Rightarrow> 'd component \<Rightarrow> 'd component outcome" where
  "step e NgAfterViewInit s = Returned (ngAfterViewInit s)"
| "step e (MinimalDateEmitted d) s = Returned (onMinimalDate e d s)"
| "step e DateChangedManuallyNext s = Returned (dateChangedManuallyNext s)"
| "step e DebounceTimerFires s = Returned (debounceTimerFires e s)"
| "step e ChangeSchedulingMode s = Returned (changeSchedulingMode e s)"
| "step e ChangeNonWorkingDays s = Returned (changeNonWorkingDays e s)"
| "step e (Save isSchedulable) s = save e isSchedulable s"
| "step e Cancel s = Returned (cancel s)"
| "step e (UpdateDate val) s = Returned (updateDate e val s)"
| "step e (SetToday now) s = Returned (setToday e now s)"
| "step e (WidgetOnChange dates) s = Returned (onChange e dates s)"
| "step e (UpdateDatesFromForm d i) s = Returned (updateDatesFromForm e d i s)"
| "step e (WriteScheduleManually b) s = Returned (s\<lparr>scheduleManually := b\<rparr>)"
| "step e (WriteIgnoreNonWorkingDays b) s = Returned (s\<lparr>ignoreNonWorkingDays := b\<rparr>)"
| "step e (WriteDate v) s = Returned (s\<lparr>date := v\<rparr>)"

fun run :: "'d env \<Rightarrow> 'd operation list \<Rightarrow> 'd component \<Rightarrow> 'd component" where
  "run e [] s = s"
| "run e (x # xs) s = run e xs (stateOf (step e x s))"

subsection \<open>Reading a trace\<close>

fun isSetValue :: "'d effect \<Rightarrow> bool" where
  "isSetValue (SetValue c f v) = True"
| "isSetValue x = False"

fun isSetDates :: "'d effect \<Rightarrow> bool" where
  "isSetDates (SetDates p w d) = True"
| "isSetDates x = False"

definition emitted :: "'d effect list \<Rightarrow> nat" where
  "emitted t = length (filter (\<lambda>x. x = Emit) t)"

subsection \<open>The widget handle and the live instances\<close>

text \<open>
  The instances alive are exactly the one the component holds, if it holds one.
\<close>

definition handleIsLive :: "'d component \<Rightarrow> bool" where
  "handleIsLive s =
     (live s = (case datePickerInstance s of None \<Rightarrow> [] | Some w \<Rightarrow> [instId w]))"

subsection \<open>A concrete environment\<close>

text \<open>
  An instance of the parameters, for evaluating the model at concrete inputs. A date
  object is represented by its ISO string; a string is a valid date when it is empty or
  ten code units of digits and hyphens.
\<close>

definition demoEnv :: "jsstring env" where
  "demoEnv =
     \<lparr>validDate = (\<lambda>v. v = [] \<or> (length v = 10 \<and> list_all (\<lambda>c. c = 0x2D \<or> (0x30 \<le> c \<and> c \<le> 0x39)) v)),
      parseDate = (\<lambda>v. if v = [] then EmptyString else ParsedDate v),
      parseDateObj = (\<lambda>d. d),
      mappedDate = (\<lambda>v. if v = Some [] then None else v),
      formattedISODate = (\<lambda>d. d),
      isMobile = False,
      isNonWorkingDay = (\<lambda>d. False),
      isDayDisabled = (\<lambda>d m. case m of MinDate x \<Rightarrow> d = x | _ \<Rightarrow> False)\<rparr>"

text \<open>The strings \<^verbatim>\<open>2022-07-15\<close>, \<^verbatim>\<open>2022-07-19\<close>, \<^verbatim>\<open>2022-7\<close> and \<^verbatim>\<open>2022-07-xx\<close> in code units.\<close>

definition july15 :: jsstring where
  "july15 = [0x32, 0x30, 0x32, 0x32, 0x2D, 0x30, 0x37, 0x2D, 0x31, 0x35]"

definition july19 :: jsstring where
  "july19 = [0x32, 0x30, 0x32, 0x32, 0x2D, 0x30, 0x37, 0x2D, 0x31, 0x39]"

definition tooShort :: jsstring where
  "tooShort = [0x32, 0x30, 0x32, 0x32, 0x2D, 0x37]"

definition notADate :: jsstring where
  "notADate = [0x32, 0x30, 0x32, 0x32, 0x2D, 0x30, 0x37, 0x2D, 0x78, 0x78]"

text \<open>
  A component after view initialisation, a first delivery of the minimal date
  (\<^verbatim>\<open>null\<close>), and the user's entry of \<^verbatim>\<open>2022-07-15\<close> into the date field.
\<close>

definition shownWith15 :: "jsstring component" where
  "shownWith15 = run demoEnv [NgAfterViewInit, MinimalDateEmitted None, WriteDate (Some july15)] constructor"

section \<open>Auxiliary facts\<close>

lemma trace_perform: "trace (perform x s) = trace s @ [x]"
  by (simp add: perform_def)

lemma shownWith15_eq:
  "shownWith15 =
     \<lparr>scheduleManually = False, ignoreNonWorkingDays = False, date = Some july15,
      debounceDelay = 0, changeset = None,
      datePickerInstance = Some \<lparr>instId = 0, initialDate = [], showMonths = 2, capturedMinimal = Null\<rparr>,
      subscribed = True, pendingTimer = None, live = [0], nextId = Suc 0,
      trace = [RelationsSetChangeset None, SchedulingSetChangeset None,
               Construct \<lparr>instId = 0, initialDate = [], showMonths = 2, capturedMinimal = Null\<rparr>]\<rparr>"
  by (simp add: shownWith15_def constructor_def fieldInitialisers_def perform_def
      ngAfterViewInit_def onMinimalDate_def initializeDatepicker_def destroyInstance_def
      demoEnv_def Let_def)


subsection \<open>What no operation changes\<close>

lemmas method_defs =
  ngAfterViewInit_def onMinimalDate_def dateChangedManuallyNext_def debounceTimerFires_def
  onDateChangedManually_def changeSchedulingMode_def changeNonWorkingDays_def save_def
  cancel_def updateDate_def setToday_def onChange_def updateDatesFromForm_def
  initializeDatepicker_def destroyInstance_def enforceManualChangesToDatepicker_def
  perform_def

lemma changeset_step: "changeset (stateOf (step e x s)) = changeset s"
  by (cases x) (simp_all add: method_defs Let_def split: option.splits list.splits)

lemma changeset_run: "changeset (run e xs s) = changeset s"
  by (induction xs arbitrary: s) (simp_all add: changeset_step)

lemma changeset_constructor: "changeset constructor = None"
  by (simp add: constructor_def fieldInitialisers_def perform_def)

lemma save_without_changeset:
  "changeset s = None \<Longrightarrow> save e b s = Threw TypeError (perform PreventDefault s)"
  by (simp add: save_def perform_def)

text \<open>
  With a changeset in place, \<^verbatim>\<open>save\<close> would return after two unconditional writes, the
  write of the date when schedulable, and one emission.
\<close>

lemma save_with_changeset:
  "changeset s = Some c \<Longrightarrow>
     save e b s =
       Returned (s\<lparr>trace := trace s @
         [PreventDefault,
          SetValue c ScheduleManually (BoolValue (scheduleManually s)),
          SetValue c IgnoreNonWorkingDays (BoolValue (ignoreNonWorkingDays s))]
         @ (if b then [SetValue c DateField (DateValue (mappedDate e (date s)))] else [])
         @ [Emit]\<rparr>)"
  by (simp add: save_def perform_def)

lemma debounceDelay_step_other:
  "x \<noteq> DebounceTimerFires \<Longrightarrow> debounceDelay (stateOf (step e x s)) = debounceDelay s"
  by (cases x) (simp_all add: method_defs Let_def split: option.splits list.splits)

lemma debounceDelay_timer_fires:
  "debounceDelay (debounceTimerFires e s) = (if pendingTimer s = None then debounceDelay s else 800)"
  by (simp add: method_defs Let_def split: option.splits)

lemma debounceDelay_handler: "debounceDelay (onDateChangedManually e s) = 800"
  by (simp add: method_defs Let_def split: option.splits)

lemma debounceDelay_step_800:
  "debounceDelay s = 800 \<Longrightarrow> debounceDelay (stateOf (step e x s)) = 800"
  by (cases "x = DebounceTimerFires")
     (simp_all add: debounceDelay_timer_fires debounceDelay_step_other)

lemma debounceDelay_run_800:
  "debounceDelay s = 800 \<Longrightarrow> debounceDelay (run e xs s) = 800"
  by (induction xs arbitrary: s) (simp_all add: debounceDelay_step_800)

lemma debounceDelay_step_range:
  "debounceDelay s = 0 \<or> debounceDelay s = 800 \<Longrightarrow>
   debounceDelay (stateOf (step e x s)) = 0 \<or> debounceDelay (stateOf (step e x s)) = 800"
  by (cases "x = DebounceTimerFires")
     (auto simp add: debounceDelay_timer_fires debounceDelay_step_other)

lemma debounceDelay_run_range:
  "debounceDelay s = 0 \<or> debounceDelay s = 800 \<Longrightarrow>
   debounceDelay (run e xs s) = 0 \<or> debounceDelay (run e xs s) = 800"
proof (induction xs arbitrary: s)
  case Nil
  then show ?case by simp
next
  case (Cons x xs)
  from Cons.prems have "debounceDelay (stateOf (step e x s)) = 0
      \<or> debounceDelay (stateOf (step e x s)) = 800"
    by (rule debounceDelay_step_range)
  then show ?case using Cons.IH by simp
qed


subsection \<open>Re-initialisation keeps one instance\<close>

lemma handleIsLive_constructor: "handleIsLive constructor"
  by (simp add: handleIsLive_def constructor_def fieldInitialisers_def perform_def)

lemma live_destroyInstance: "handleIsLive s \<Longrightarrow> live (destroyInstance s) = []"
  by (simp add: handleIsLive_def destroyInstance_def perform_def split: option.splits)

lemma trace_destroyInstance:
  "handleIsLive s \<Longrightarrow> trace (destroyInstance s) = trace s @ map Destroy (live s)"
  by (simp add: handleIsLive_def destroyInstance_def perform_def split: option.splits)

lemma nextId_destroyInstance: "nextId (destroyInstance s) = nextId s"
  by (simp add: destroyInstance_def perform_def split: option.splits)

lemma date_destroyInstance: "date (destroyInstance s) = date s"
  by (simp add: destroyInstance_def perform_def split: option.splits)

lemma initializeDatepicker_live:
  "handleIsLive s \<Longrightarrow> live (initializeDatepicker e m s) = [nextId s]"
  by (simp add: initializeDatepicker_def Let_def perform_def live_destroyInstance
      nextId_destroyInstance)

lemma initializeDatepicker_handle:
  "datePickerInstance (initializeDatepicker e m s) =
     Some \<lparr>instId = nextId s, initialDate = orEmpty (date s),
           showMonths = (if isMobile e then 1 else 2), capturedMinimal = m\<rparr>"
  by (simp add: initializeDatepicker_def Let_def perform_def nextId_destroyInstance
      date_destroyInstance)

lemma initializeDatepicker_trace:
  "handleIsLive s \<Longrightarrow>
   trace (initializeDatepicker e m s) =
     trace s @ map Destroy (live s) @
       [Construct \<lparr>instId = nextId s, initialDate = orEmpty (date s),
                   showMonths = (if isMobile e then 1 else 2), capturedMinimal = m\<rparr>]"
  by (simp add: initializeDatepicker_def Let_def perform_def nextId_destroyInstance
      date_destroyInstance trace_destroyInstance)

lemma handleIsLive_initializeDatepicker:
  "handleIsLive s \<Longrightarrow> handleIsLive (initializeDatepicker e m s)"
  by (simp add: handleIsLive_def [of "initializeDatepicker e m s"]
      initializeDatepicker_live initializeDatepicker_handle)

lemma handleIsLive_step: "handleIsLive s \<Longrightarrow> handleIsLive (stateOf (step e x s))"
proof (cases x)
  case (MinimalDateEmitted d)
  assume "handleIsLive s"
  then show ?thesis using MinimalDateEmitted
    by (simp add: onMinimalDate_def handleIsLive_initializeDatepicker)
next
  case ChangeSchedulingMode
  assume "handleIsLive s"
  then have "handleIsLive (initializeDatepicker e Undefined s)"
    by (rule handleIsLive_initializeDatepicker)
  then show ?thesis using ChangeSchedulingMode
    by (simp add: changeSchedulingMode_def perform_def handleIsLive_def)
next
  case ChangeNonWorkingDays
  assume "handleIsLive s"
  then have "handleIsLive (initializeDatepicker e Undefined s)"
    by (rule handleIsLive_initializeDatepicker)
  then show ?thesis using ChangeNonWorkingDays
    by (simp add: changeNonWorkingDays_def perform_def handleIsLive_def Let_def)
qed (simp_all add: handleIsLive_def ngAfterViewInit_def dateChangedManuallyNext_def
      debounceTimerFires_def onDateChangedManually_def save_def cancel_def updateDate_def
      setToday_def onChange_def updateDatesFromForm_def
      enforceManualChangesToDatepicker_def perform_def Let_def
      split: option.splits list.splits)

lemma handleIsLive_run: "handleIsLive s \<Longrightarrow> handleIsLive (run e xs s)"
  by (induction xs arbitrary: s) (simp_all add: handleIsLive_step)

lemma handleIsLive_reachable: "handleIsLive (run e xs constructor)"
  by (rule handleIsLive_run [OF handleIsLive_constructor])

lemma handleIsLive_at_most_one: "handleIsLive s \<Longrightarrow> length (live s) \<le> 1"
  by (simp add: handleIsLive_def split: option.splits)


lemma orEmpty_Some: "orEmpty (Some v) = v"
  by simp

lemma constructor_eq:
  "constructor =
     \<lparr>scheduleManually = False, ignoreNonWorkingDays = False, date = None,
      debounceDelay = 0, changeset = None, datePickerInstance = None,
      subscribed = False, pendingTimer = None, live = [], nextId = 0,
      trace = [RelationsSetChangeset None, SchedulingSetChangeset None]\<rparr>"
  by (simp add: constructor_def fieldInitialisers_def perform_def)

section \<open>The claims\<close>

subsection \<open>Save, cancel and the changeset\<close>

text \<open>
  C1. On a freshly constructed component the \<^verbatim>\<open>changeset\<close> field is undefined, so
  \<^verbatim>\<open>save\<close> prevents the event's default action and then raises a TypeError at the first
  \<^verbatim>\<open>setValue\<close>: no field is written and savedOrCancelled is not emitted, whatever the
  scheduling service reports. The same happens in every state reached from there by
  any sequence of operations. (With a changeset in place the method does what is
  expected of it: lemma \<open>save_with_changeset\<close>.)
\<close>

theorem save_on_fresh_component_raises:
  "save e isSchedulable constructor =
     Threw TypeError (constructor\<lparr>trace := trace constructor @ [PreventDefault]\<rparr>)
   \<and> trace (stateOf (save e isSchedulable constructor)) =
       [RelationsSetChangeset None, SchedulingSetChangeset None, PreventDefault]
   \<and> emitted (trace (stateOf (save e isSchedulable constructor))) = 0
   \<and> filter isSetValue (trace (stateOf (save e isSchedulable constructor))) = []
   \<and> emitted (trace (stateOf (save e isSchedulable (run e xs constructor)))) =
       emitted (trace (run e xs constructor))
   \<and> filter isSetValue (trace (stateOf (save e isSchedulable (run e xs constructor)))) =
       filter isSetValue (trace (run e xs constructor))"
proof -
  have undefined_field: "changeset (run e xs constructor) = None"
    by (simp add: changeset_run changeset_constructor)
  have fresh: "save e isSchedulable constructor =
      Threw TypeError (constructor\<lparr>trace := trace constructor @ [PreventDefault]\<rparr>)"
    by (simp add: save_def perform_def constructor_eq)
  show ?thesis
    by (simp add: fresh save_without_changeset [OF undefined_field] perform_def emitted_def)
       (simp add: constructor_eq)
qed

text \<open>
  C2. No field initialiser and no operation assigns the \<^verbatim>\<open>changeset\<close> field: it is
  undefined after the field initialisers, the constructor hands that undefined value to
  the relations and to the scheduling service, every operation leaves the field as it
  was, and so in every state the component can reach \<^verbatim>\<open>save\<close> calls \<^verbatim>\<open>setValue\<close> on the
  undefined field, which raises.
\<close>

theorem changeset_never_assigned:
  "changeset (fieldInitialisers :: 'd component) = None
   \<and> trace (constructor :: 'd component) =
       [RelationsSetChangeset None, SchedulingSetChangeset None]
   \<and> changeset (stateOf (step e x s)) = changeset s
   \<and> changeset (run e xs constructor) = None
   \<and> save e b (run e xs constructor) =
       Threw TypeError (perform PreventDefault (run e xs constructor))"
  by (simp add: changeset_step changeset_run changeset_constructor save_without_changeset
      constructor_eq)
     (simp add: fieldInitialisers_def)

text \<open>
  C7. \<^verbatim>\<open>cancel()\<close> appends exactly one event to the trace, the emission of
  savedOrCancelled, so it makes no call to setValue; it changes nothing else of the
  component, in particular not the local date and the two toggles.
\<close>

theorem cancel_emits_once_writes_nothing:
  "cancel s = s\<lparr>trace := trace s @ [Emit]\<rparr>
   \<and> emitted (trace (cancel s)) = Suc (emitted (trace s))
   \<and> filter isSetValue (trace (cancel s)) = filter isSetValue (trace s)
   \<and> date (cancel s) = date s
   \<and> scheduleManually (cancel s) = scheduleManually s
   \<and> ignoreNonWorkingDays (cancel s) = ignoreNonWorkingDays s"
  by (simp add: cancel_def perform_def emitted_def)


subsection \<open>The debounce delay\<close>

text \<open>
  C3. The delay field is 0 after construction. Every manual-change signal arms the
  debounce timer with the current value of the field. The subscriber of the debounced
  stream sets the field to 800; no other operation changes it, and once it is 800 it
  stays 800 through any sequence of operations. From construction on, it is never
  anything but 0 or 800.
\<close>

theorem debounce_delay_zero_then_800:
  "debounceDelay (constructor :: 'd component) = 0
   \<and> (subscribed s \<longrightarrow> pendingTimer (dateChangedManuallyNext s) = Some (debounceDelay s))
   \<and> debounceDelay (onDateChangedManually e s) = 800
   \<and> (x \<noteq> DebounceTimerFires \<longrightarrow> debounceDelay (stateOf (step e x s)) = debounceDelay s)
   \<and> debounceDelay (stateOf (step e DebounceTimerFires s)) =
       (if pendingTimer s = None then debounceDelay s else 800)
   \<and> (debounceDelay s = 800 \<longrightarrow> debounceDelay (run e xs s) = 800)
   \<and> (debounceDelay (run e xs constructor) = 0 \<or> debounceDelay (run e xs constructor) = 800)"
proof -
  have range: "debounceDelay (run e xs constructor) = 0
      \<or> debounceDelay (run e xs constructor) = 800"
    by (rule debounceDelay_run_range) (simp add: constructor_eq)
  have arm: "subscribed s \<longrightarrow> pendingTimer (dateChangedManuallyNext s) = Some (debounceDelay s)"
    by (simp add: dateChangedManuallyNext_def perform_def)
  show ?thesis
    using range arm
    by (simp add: constructor_eq debounceDelay_handler debounceDelay_step_other
        debounceDelay_timer_fires debounceDelay_run_800)
qed

theorem debounce_delay_zero_then_800_witness:
  "subscribed shownWith15
   \<and> pendingTimer (dateChangedManuallyNext shownWith15) = Some 0
   \<and> Cancel \<noteq> (DebounceTimerFires :: jsstring operation)
   \<and> debounceDelay (stateOf (step demoEnv Cancel shownWith15)) = 0
   \<and> debounceDelay (debounceTimerFires demoEnv (dateChangedManuallyNext shownWith15)) = 800
   \<and> debounceDelay
        (run demoEnv [DateChangedManuallyNext, ChangeSchedulingMode, Save True,
                      SetToday july19, DebounceTimerFires, Cancel]
           (debounceTimerFires demoEnv (dateChangedManuallyNext shownWith15))) = 800"
proof -
  have sub: "subscribed shownWith15"
    by (simp add: shownWith15_eq)
  have zero: "debounceDelay shownWith15 = 0"
    by (simp add: shownWith15_eq)
  have pend: "pendingTimer (dateChangedManuallyNext shownWith15) = Some 0"
    by (simp add: shownWith15_eq dateChangedManuallyNext_def perform_def)
  have fired: "debounceDelay (debounceTimerFires demoEnv (dateChangedManuallyNext shownWith15)) = 800"
    using pend by (simp add: debounceDelay_timer_fires)
  have neq: "Cancel \<noteq> (DebounceTimerFires :: jsstring operation)"
    by simp
  note at_shown = debounce_delay_zero_then_800
         [of shownWith15 demoEnv Cancel
             "[DateChangedManuallyNext, ChangeSchedulingMode, Save True,
               SetToday july19, DebounceTimerFires, Cancel]"]
  note at_fired = debounce_delay_zero_then_800
         [of "debounceTimerFires demoEnv (dateChangedManuallyNext shownWith15)" demoEnv Cancel
             "[DateChangedManuallyNext, ChangeSchedulingMode, Save True,
               SetToday july19, DebounceTimerFires, Cancel]"]
  have armed: "pendingTimer (dateChangedManuallyNext shownWith15) = Some (debounceDelay shownWith15)"
    using at_shown sub by blast
  have kept: "debounceDelay (stateOf (step demoEnv Cancel shownWith15)) = debounceDelay shownWith15"
    using at_shown neq by blast
  have stays: "debounceDelay
        (run demoEnv [DateChangedManuallyNext, ChangeSchedulingMode, Save True,
                      SetToday july19, DebounceTimerFires, Cancel]
           (debounceTimerFires demoEnv (dateChangedManuallyNext shownWith15))) = 800"
    using at_fired fired by blast
  show ?thesis
    using sub neq fired stays armed kept by (simp only: zero simp_thms)
qed


subsection \<open>Date synchronisation\<close>

lemma demo_strings:
  "validDate demoEnv july15" "validDate demoEnv july19" "\<not> validDate demoEnv notADate"
  "length july15 = 10" "length july19 = 10" "length tooShort = 6" "length notADate = 10"
  "july15 \<noteq> july19" "july15 \<noteq> []" "july19 \<noteq> []"
  by (simp_all add: demoEnv_def july15_def july19_def tooShort_def notADate_def)

lemma demo_parse:
  "parseDate demoEnv july15 = ParsedDate july15" "parseDate demoEnv july19 = ParsedDate july19"
  by (simp_all add: demoEnv_def demo_strings)

text \<open>
  C4, as stated, fails: the component holds the valid date 2022-07-15 and a widget, and
  \<^verbatim>\<open>updateDate\<close> is called with the valid string 2022-07-19. The local date field
  stays 2022-07-15, and the dates handed to the widget are the parse of the local field,
  not of the input; the parse of the input is passed only as the date to enforce.
\<close>

theorem updateDate_other_string_counterexample:
  "validDate demoEnv july19 \<and> 8 \<le> length july19
   \<and> date (updateDate demoEnv (Some july19) shownWith15) = Some july15
   \<and> july15 \<noteq> july19
   \<and> trace (updateDate demoEnv (Some july19) shownWith15) =
       trace shownWith15 @
         [SetDates (parseDate demoEnv july15) (Some 0) (Some (ParsedDate july19))]
   \<and> parseDate demoEnv july15 \<noteq> parseDate demoEnv july19"
  by (simp add: demo_strings demo_parse)
     (simp add: updateDate_def enforceManualChangesToDatepicker_def perform_def
        shownWith15_eq demo_strings demo_parse)

text \<open>
  C4, amended. For a string \<open>v\<close> that passes the validity check and has at least 8 code
  units, and a component that holds a widget instance, \<^verbatim>\<open>updateDate(v)\<close> makes exactly one
  \<^verbatim>\<open>setDates\<close> call on that instance: the dates are the parse of the local date field,
  the date to enforce is the parse of \<open>v\<close>. The local date field is left as it was. When
  \<open>v\<close> is the local date field, as in the debounced reconciliation
  \<^verbatim>\<open>updateDate(this.date)\<close>, the dates handed over are the parse of \<open>v\<close> and the local
  field equals \<open>v\<close>.
\<close>

theorem updateDate_valid_pushes_local_date:
  assumes "validDate e v" and "8 \<le> length v" and "datePickerInstance s = Some w"
  shows "updateDate e (Some v) s =
           s\<lparr>trace := trace s @
              [SetDates (parseDate e (orEmpty (date s))) (Some (instId w))
                        (orUndefined (parseDate e v))]\<rparr>
         \<and> date (updateDate e (Some v) s) = date s
         \<and> (date s = Some v \<longrightarrow>
              updateDate e (Some v) s =
                s\<lparr>trace := trace s @
                   [SetDates (parseDate e v) (Some (instId w)) (orUndefined (parseDate e v))]\<rparr>
              \<and> date (updateDate e (Some v) s) = Some v
              \<and> onDateChangedManually e s =
                  s\<lparr>debounceDelay := 800,
                    trace := trace s @
                      [SetDates (parseDate e v) (Some (instId w))
                                (orUndefined (parseDate e v))]\<rparr>)"
  using assms
  by (simp add: updateDate_def onDateChangedManually_def
      enforceManualChangesToDatepicker_def perform_def)

theorem updateDate_valid_pushes_local_date_witness:
  "validDate demoEnv july15 \<and> 8 \<le> length july15
   \<and> datePickerInstance shownWith15 =
       Some \<lparr>instId = 0, initialDate = [], showMonths = 2, capturedMinimal = Null\<rparr>
   \<and> date shownWith15 = Some july15
   \<and> updateDate demoEnv (Some july15) shownWith15 =
       shownWith15\<lparr>trace := trace shownWith15 @
          [SetDates (ParsedDate july15) (Some 0) (Some (ParsedDate july15))]\<rparr>
   \<and> date (updateDate demoEnv (Some july15) shownWith15) = Some july15"
proof -
  have valid: "validDate demoEnv july15" and len: "8 \<le> length july15"
    by (simp_all add: demo_strings)
  have inst: "datePickerInstance shownWith15 =
      Some \<lparr>instId = 0, initialDate = [], showMonths = 2, capturedMinimal = Null\<rparr>"
    by (simp add: shownWith15_eq)
  have local: "date shownWith15 = Some july15"
    by (simp add: shownWith15_eq)
  from updateDate_valid_pushes_local_date [OF valid len inst]
  show ?thesis
    using valid len inst local by (simp add: demo_parse)
qed

text \<open>
  C5. A non-empty string of fewer than 8 code units, and any string that fails the
  validity check, is ignored by \<^verbatim>\<open>updateDate\<close>: the call returns without raising and
  leaves the whole state as it was, so no \<^verbatim>\<open>setDates\<close> call reaches the widget.
\<close>

theorem updateDate_ignores_short_or_invalid:
  "(0 < length v \<and> length v < 8) \<or> \<not> validDate e v \<Longrightarrow>
   step e (UpdateDate (Some v)) s = Returned s"
  by (auto simp add: updateDate_def)

theorem updateDate_ignores_short_or_invalid_witness:
  "0 < length tooShort \<and> length tooShort < 8
   \<and> step demoEnv (UpdateDate (Some tooShort)) shownWith15 = Returned shownWith15
   \<and> \<not> validDate demoEnv notADate \<and> 8 \<le> length notADate
   \<and> step demoEnv (UpdateDate (Some notADate)) shownWith15 = Returned shownWith15"
proof -
  have short: "(0 < length tooShort \<and> length tooShort < 8) \<or> \<not> validDate demoEnv tooShort"
    by (simp add: demo_strings)
  have invalid: "(0 < length notADate \<and> length notADate < 8) \<or> \<not> validDate demoEnv notADate"
    by (simp add: demo_strings)
  from updateDate_ignores_short_or_invalid [OF short, of shownWith15]
       updateDate_ignores_short_or_invalid [OF invalid, of shownWith15]
  show ?thesis
    by (simp add: demo_strings del: step.simps)
qed

text \<open>
  C8. \<^verbatim>\<open>setToday()\<close> sets the local date to the formatted current date and, in the same
  call, hands the widget the parse of that date with today as the date to enforce. It
  sends no manual-change signal: no timer is armed, and the pending timer and the delay
  are as before.
\<close>

theorem setToday_sets_date_and_pushes:
  "setToday e now s =
     s\<lparr>date := Some (formattedISODate e (parseDateObj e now)),
       trace := trace s @
         [SetDates (parseDate e (formattedISODate e (parseDateObj e now)))
                   (map_option instId (datePickerInstance s))
                   (Some (ParsedDate (parseDateObj e now)))]\<rparr>
   \<and> date (setToday e now s) = Some (formattedISODate e (parseDateObj e now))
   \<and> pendingTimer (setToday e now s) = pendingTimer s
   \<and> debounceDelay (setToday e now s) = debounceDelay s"
  by (simp add: setToday_def enforceManualChangesToDatepicker_def perform_def Let_def)

text \<open>
  C10. When the widget reports an empty selection, \<^verbatim>\<open>onChange\<close> only requests a
  change-detection pass: the local date and everything else is as before and no
  \<^verbatim>\<open>setDates\<close> call is made. With a non-empty selection the local date becomes the
  formatted first date, that date is handed to the widget, and change detection follows.
\<close>

theorem onChange_empty_only_detects_changes:
  "onChange e [] s = s\<lparr>trace := trace s @ [DetectChanges]\<rparr>
   \<and> date (onChange e [] s) = date s
   \<and> filter isSetDates (trace (onChange e [] s)) = filter isSetDates (trace s)
   \<and> onChange e (d # ds) s =
       s\<lparr>date := Some (formattedISODate e d),
         trace := trace s @
           [SetDates (parseDate e (formattedISODate e d))
                     (map_option instId (datePickerInstance s)) (Some (ParsedDate d)),
            DetectChanges]\<rparr>"
  by (simp add: onChange_def enforceManualChangesToDatepicker_def perform_def)


subsection \<open>Widget re-initialisation\<close>

text \<open>
  C6. In every state the component can reach from its construction, at most one widget
  instance is live, and it is the one the component holds. Re-initialising there first
  destroys the live instances (one if there is one, none otherwise), which leaves none
  alive, and only then constructs the new one, which is afterwards the only live
  instance. The two toggles re-initialise in this way and then request change detection.
\<close>

theorem at_most_one_widget_instance:
  "(let r = run e xs constructor;
        w = \<lparr>instId = nextId r, initialDate = orEmpty (date r),
              showMonths = (if isMobile e then 1 else 2), capturedMinimal = m\<rparr>;
        u = \<lparr>instId = nextId r, initialDate = orEmpty (date r),
              showMonths = (if isMobile e then 1 else 2), capturedMinimal = Undefined\<rparr>
    in length (live r) \<le> 1
       \<and> live r = (case datePickerInstance r of None \<Rightarrow> [] | Some v \<Rightarrow> [instId v])
       \<and> live (destroyInstance r) = []
       \<and> trace (initializeDatepicker e m r) = trace r @ map Destroy (live r) @ [Construct w]
       \<and> live (initializeDatepicker e m r) = [instId w]
       \<and> trace (changeSchedulingMode e r) =
           trace r @ map Destroy (live r) @ [Construct u, DetectChanges]
       \<and> live (changeSchedulingMode e r) = [instId u]
       \<and> trace (changeNonWorkingDays e r) =
           trace r @ map Destroy (live r) @ [Construct u, DetectChanges]
       \<and> live (changeNonWorkingDays e r) = [instId u])"
proof -
  define r where "r = run e xs constructor"
  have inv: "handleIsLive r"
    unfolding r_def by (rule handleIsLive_reachable)
  have one: "length (live r) \<le> 1"
    using inv by (rule handleIsLive_at_most_one)
  have held: "live r = (case datePickerInstance r of None \<Rightarrow> [] | Some v \<Rightarrow> [instId v])"
    using inv by (simp add: handleIsLive_def)
  have gone: "live (destroyInstance r) = []"
    using inv by (rule live_destroyInstance)
  note tr = initializeDatepicker_trace [OF inv]
  note lv = initializeDatepicker_live [OF inv]
  have mode: "trace (changeSchedulingMode e r) =
      trace (initializeDatepicker e Undefined r) @ [DetectChanges]
      \<and> live (changeSchedulingMode e r) = live (initializeDatepicker e Undefined r)"
    by (simp add: changeSchedulingMode_def perform_def)
  have nwd: "trace (changeNonWorkingDays e r) =
      trace (initializeDatepicker e Undefined r) @ [DetectChanges]
      \<and> live (changeNonWorkingDays e r) = live (initializeDatepicker e Undefined r)"
    by (simp add: changeNonWorkingDays_def perform_def Let_def)
  show ?thesis
    unfolding Let_def r_def [symmetric]
    using one held gone mode nwd by (simp add: tr lv)
qed

text \<open>
  C9. Both toggles re-initialise the widget without a minimal date. Whatever minimal
  date the relations service delivered before, the widget held after
  \<^verbatim>\<open>changeSchedulingMode()\<close> or \<^verbatim>\<open>changeNonWorkingDays()\<close> has captured \<^verbatim>\<open>undefined\<close>, and its
  \<^verbatim>\<open>onDayCreate\<close> callback passes \<^verbatim>\<open>undefined\<close> as the minimal date both to the day
  helper and to the scheduling service's day predicate. Right after a delivery of the
  minimal date \<open>d\<close> the widget held had captured \<open>d\<close>.
\<close>

theorem toggles_rebuild_without_minimal_date:
  "(\<exists>w. datePickerInstance (changeSchedulingMode e s) = Some w
        \<and> capturedMinimal w = Undefined
        \<and> argMinimalDate (onDayCreate e w day s') = Undefined
        \<and> argIsDayDisabled (onDayCreate e w day s') = isDayDisabled e day Undefined)
   \<and> (\<exists>w. datePickerInstance (changeNonWorkingDays e s) = Some w
        \<and> capturedMinimal w = Undefined
        \<and> argMinimalDate (onDayCreate e w day s') = Undefined
        \<and> argIsDayDisabled (onDayCreate e w day s') = isDayDisabled e day Undefined)
   \<and> map_option capturedMinimal
        (datePickerInstance (onMinimalDate e (Some d) (ngAfterViewInit s))) = Some (MinDate d)
   \<and> map_option capturedMinimal
        (datePickerInstance
           (changeSchedulingMode e (onMinimalDate e (Some d) (ngAfterViewInit s)))) = Some Undefined
   \<and> map_option capturedMinimal
        (datePickerInstance
           (changeNonWorkingDays e (onMinimalDate e (Some d) (ngAfterViewInit s)))) = Some Undefined"
  by (simp add: changeSchedulingMode_def changeNonWorkingDays_def onMinimalDate_def
      ngAfterViewInit_def perform_def Let_def initializeDatepicker_handle onDayCreate_def)

end
